theory Spec2Isabelle
  imports Complex_Main "HOL-Library.Sublist"
begin

section \<open>MicroSelectIA: the candidate-job matching engine\<close>

text \<open>
  A shallow embedding of \<^verbatim>\<open>app/core/config.py\<close>, \<^verbatim>\<open>app/schemas/matching.py\<close>,
  \<^verbatim>\<open>app/services/ai_matcher.py\<close> and \<^verbatim>\<open>app/services/matching_engine.py\<close>.

  Python floats are modelled as \<^typ>\<open>real\<close>: rounding, NaN and infinities are outside
  the model. Python strings are modelled as \<^typ>\<open>string\<close>, one \<^typ>\<open>char\<close> per code point
  below 256. Exceptions are values of \<open>py_error + 'a\<close>.
\<close>

subsection \<open>Strings\<close>

definition is_space :: "char \<Rightarrow> bool" where
  \<comment> \<open>\<^verbatim>\<open>str.isspace\<close> on the code points below 256\<close>
  "is_space c = (let n = (of_char c :: nat) in
     (9 \<le> n \<and> n \<le> 13) \<or> (28 \<le> n \<and> n \<le> 32) \<or> n = 133 \<or> n = 160)"

definition is_upper :: "char \<Rightarrow> bool" where
  "is_upper c = (let n = (of_char c :: nat) in
     (65 \<le> n \<and> n \<le> 90) \<or> (192 \<le> n \<and> n \<le> 222 \<and> n \<noteq> 215))"

definition lower_char :: "char \<Rightarrow> char" where
  "lower_char c = (if is_upper c then char_of ((of_char c :: nat) + 32) else c)"

definition lower :: "string \<Rightarrow> string" where
  \<comment> \<open>\<^verbatim>\<open>str.lower()\<close>\<close>
  "lower s = map lower_char s"

definition strip :: "string \<Rightarrow> string" where
  \<comment> \<open>\<^verbatim>\<open>str.strip()\<close>: leading and trailing whitespace removed\<close>
  "strip s = rev (dropWhile is_space (rev (dropWhile is_space s)))"

definition normalize_skill :: "string \<Rightarrow> string" where
  \<comment> \<open>\<^verbatim>\<open>skill.lower().strip()\<close>\<close>
  "normalize_skill s = strip (lower s)"

fun contains :: "string \<Rightarrow> string \<Rightarrow> bool" where
  \<comment> \<open>\<^verbatim>\<open>sub in text\<close>\<close>
  "contains sub [] = (sub = [])"
| "contains sub (c # cs) = (prefix sub (c # cs) \<or> contains sub cs)"

fun join :: "string \<Rightarrow> string list \<Rightarrow> string" where
  \<comment> \<open>\<^verbatim>\<open>sep.join(parts)\<close>\<close>
  "join sep [] = []"
| "join sep [x] = x"
| "join sep (x # y # ys) = x @ sep @ join sep (y # ys)"

subsection \<open>Configuration\<close>

datatype py_error = ValueError | ValidationError

text \<open>
  The settings object the engine holds. The weights are the fields of \<^verbatim>\<open>Settings\<close> in
  \<^verbatim>\<open>config.py\<close>. The engine reads its thresholds as the attributes
  \<^verbatim>\<open>MIN_MATCH_THRESHOLD\<close>, \<^verbatim>\<open>GOOD_MATCH_THRESHOLD\<close> and \<^verbatim>\<open>EXCELLENT_MATCH_THRESHOLD\<close>
  of the object returned by \<^verbatim>\<open>get_settings()\<close>; \<^verbatim>\<open>config.py\<close> declares neither
  that accessor nor attributes of those names (its threshold fields are called
  \<^verbatim>\<open>MIN_MATCH_SCORE\<close>, \<^verbatim>\<open>GOOD_MATCH_SCORE\<close>, \<^verbatim>\<open>EXCELLENT_MATCH_SCORE\<close>), so the three
  thresholds are fields of the record under the names the engine uses, and the record
  is a parameter of every engine function.
\<close>

record settings =
  SKILLS_WEIGHT :: real
  EXPERIENCE_WEIGHT :: real
  SEMANTIC_WEIGHT :: real
  EDUCATION_WEIGHT :: real
  MIN_MATCH_THRESHOLD :: real
  GOOD_MATCH_THRESHOLD :: real
  EXCELLENT_MATCH_THRESHOLD :: real

definition default_settings :: settings where
  \<comment> \<open>the defaults of \<^verbatim>\<open>config.py\<close>: weights 0.40, 0.25, 0.25, 0.10; thresholds 0.30, 0.60, 0.80\<close>
  "default_settings = \<lparr> SKILLS_WEIGHT = 40 / 100, EXPERIENCE_WEIGHT = 25 / 100,
     SEMANTIC_WEIGHT = 25 / 100, EDUCATION_WEIGHT = 10 / 100,
     MIN_MATCH_THRESHOLD = 30 / 100, GOOD_MATCH_THRESHOLD = 60 / 100,
     EXCELLENT_MATCH_THRESHOLD = 80 / 100 \<rparr>"

definition validate_weights :: "settings \<Rightarrow> bool" where
  "validate_weights st =
     (let total = SKILLS_WEIGHT st + EXPERIENCE_WEIGHT st + SEMANTIC_WEIGHT st + EDUCATION_WEIGHT st
      in \<bar>total - 1\<bar> < 1 / 100)"

definition config_module :: "settings \<Rightarrow> py_error + settings" where
  \<comment> \<open>the module body of \<^verbatim>\<open>config.py\<close>: build the settings, then validate the weights\<close>
  "config_module st = (if \<not> validate_weights st then Inl ValueError else Inr st)"

subsection \<open>Quality tier\<close>

definition determine_match_quality :: "settings \<Rightarrow> real \<Rightarrow> string" where
  "determine_match_quality st score =
     (if score \<ge> EXCELLENT_MATCH_THRESHOLD st then ''excellent''
      else if score \<ge> GOOD_MATCH_THRESHOLD st then ''good''
      else if score \<ge> MIN_MATCH_THRESHOLD st then ''medium''
      else ''low'')"

subsection \<open>Schemas\<close>

text \<open>
  The request schemas of \<^verbatim>\<open>schemas/matching.py\<close>, with the fields the engine reads.
  Field names carry a prefix where two schemas share a name.
\<close>

record EducationSchema =
  ed_degree :: string
  ed_institution :: string
  ed_field :: "string option"

record ExperienceSchema =
  ex_company :: string
  ex_position :: string
  ex_description :: "string option"

record CandidateSchema =
  c_id :: string
  c_name :: string
  c_skills :: "string list"
  c_experience_years :: real
  c_experience :: "ExperienceSchema list"
  c_education :: "EducationSchema list"
  c_summary :: "string option"
  c_location :: "string option"

record JobSchema =
  j_id :: string
  j_title :: string
  j_description :: string
  j_skills :: "string list"
  j_requirements :: "string list"
  j_location :: "string option"
  j_min_experience_years :: "real option"

definition valid_candidate :: "CandidateSchema \<Rightarrow> bool" where
  \<comment> \<open>\<^verbatim>\<open>experience_years: float = Field(0, ge=0)\<close>\<close>
  "valid_candidate c = (0 \<le> c_experience_years c)"

definition in_unit :: "real \<Rightarrow> bool" where
  \<comment> \<open>\<^verbatim>\<open>Field(..., ge=0, le=1)\<close>\<close>
  "in_unit x = (0 \<le> x \<and> x \<le> 1)"

record MatchBreakdown =
  skills_match :: real
  experience_match :: real
  education_match :: real
  semantic_match :: real
  location_match :: "real option"

definition mk_MatchBreakdown ::
  "real \<Rightarrow> real \<Rightarrow> real \<Rightarrow> real \<Rightarrow> real option \<Rightarrow> py_error + MatchBreakdown" where
  \<comment> \<open>the constructor, with the field constraints checked by pydantic\<close>
  "mk_MatchBreakdown s e ed sem loc =
     (if in_unit s \<and> in_unit e \<and> in_unit ed \<and> in_unit sem
         \<and> (case loc of None \<Rightarrow> True | Some l \<Rightarrow> in_unit l)
      then Inr \<lparr> skills_match = s, experience_match = e, education_match = ed,
                 semantic_match = sem, location_match = loc \<rparr>
      else Inl ValidationError)"

text \<open>
  The responses carry every field that holds a score, a rank or a skill list. The
  narrative fields \<^verbatim>\<open>explanation\<close> and \<^verbatim>\<open>recommendations\<close> are built by string
  formatting that cannot raise and feeds no score; they are left out.
\<close>

record SingleMatchResponse =
  candidate_id :: string
  candidate_name :: string
  job_id :: string
  compatibility_score :: real
  match_percentage :: int
  breakdown :: MatchBreakdown
  matched_skills :: "string list"
  missing_skills :: "string list"
  match_quality :: string

definition mk_SingleMatchResponse ::
  "string \<Rightarrow> string \<Rightarrow> string \<Rightarrow> real \<Rightarrow> int \<Rightarrow> MatchBreakdown \<Rightarrow> string list \<Rightarrow> string list
     \<Rightarrow> string \<Rightarrow> py_error + SingleMatchResponse" where
  "mk_SingleMatchResponse cid cname jid score pct b matched missing quality =
     (if in_unit score \<and> 0 \<le> pct \<and> pct \<le> 100
      then Inr \<lparr> candidate_id = cid, candidate_name = cname, job_id = jid,
                 compatibility_score = score, match_percentage = pct, breakdown = b,
                 matched_skills = matched, missing_skills = missing, match_quality = quality \<rparr>
      else Inl ValidationError)"

record RankedMatchResult =
  rk_candidate_id :: string
  rk_candidate_name :: string
  rk_compatibility_score :: real
  rk_match_percentage :: int
  rank :: nat
  rk_breakdown :: MatchBreakdown
  rk_matched_skills :: "string list"
  rk_missing_skills :: "string list"
  rk_match_quality :: string

definition mk_RankedMatchResult :: "nat \<Rightarrow> SingleMatchResponse \<Rightarrow> py_error + RankedMatchResult" where
  "mk_RankedMatchResult r m =
     (if 1 \<le> r \<and> in_unit (compatibility_score m) \<and> 0 \<le> match_percentage m \<and> match_percentage m \<le> 100
      then Inr \<lparr> rk_candidate_id = candidate_id m, rk_candidate_name = candidate_name m,
                 rk_compatibility_score = compatibility_score m,
                 rk_match_percentage = match_percentage m, rank = r,
                 rk_breakdown = breakdown m, rk_matched_skills = matched_skills m,
                 rk_missing_skills = missing_skills m, rk_match_quality = match_quality m \<rparr>
      else Inl ValidationError)"

subsection \<open>The semantic similarity provider\<close>

text \<open>
  The sentence-transformer model is a parameter: \<open>m a b\<close> is the cosine similarity of the
  embeddings of the texts \<open>a\<close> and \<open>b\<close>. A failure of the inference backend is outside
  the model.
\<close>

type_synonym model = "string \<Rightarrow> string \<Rightarrow> real"

definition calculate_similarity :: "model \<Rightarrow> string \<Rightarrow> string \<Rightarrow> real" where
  "calculate_similarity m text1 text2 = max 0 (min 1 (m text1 text2))"

fun row_max :: "real list \<Rightarrow> real" where
  \<comment> \<open>\<^verbatim>\<open>similarity_matrix[idx].max()\<close>; the row is never empty where it is called\<close>
  "row_max [] = 0"
| "row_max [x] = x"
| "row_max (x # y # ys) = max x (row_max (y # ys))"

definition match_skills_semantic :: "model \<Rightarrow> string list \<Rightarrow> string list \<Rightarrow> real \<times> string list" where
  "match_skills_semantic m candidate_skills job_skills =
     (if candidate_skills = [] \<or> job_skills = [] then (0, [])
      else
        let cs = map normalize_skill candidate_skills;
            js = map normalize_skill job_skills;
            accepted = filter (\<lambda>(job_skill, max_similarity). max_similarity \<ge> 7 / 10)
                         (map (\<lambda>job_skill. (job_skill, row_max (map (m job_skill) cs))) js);
            matched = map fst accepted;
            match_scores = map snd accepted;
            avg_score = (if match_scores \<noteq> [] then sum_list match_scores / real (length match_scores)
                         else 0)
        in (avg_score, matched))"

definition match_text_semantic :: "model \<Rightarrow> string \<Rightarrow> string \<Rightarrow> real" where
  "match_text_semantic m candidate_text job_text =
     (if candidate_text = [] \<or> job_text = [] then 0
      else calculate_similarity m candidate_text job_text)"

subsection \<open>The sub-score calculators\<close>

text \<open>
  Python sets are modelled as duplicate-free lists. The order in which \<^verbatim>\<open>list(a_set)\<close>
  enumerates a set is not specified by Python; the model enumerates in order of first
  occurrence, and no theorem below depends on that order.

  \<open>calculate_skills_match\<close> returns, next to its result, the calls it made to the
  provider.
\<close>

datatype provider_call = MatchSkillsSemantic "string list" "string list"

definition calculate_skills_match ::
  "model \<Rightarrow> CandidateSchema \<Rightarrow> JobSchema \<Rightarrow> (real \<times> string list \<times> string list) \<times> provider_call list" where
  "calculate_skills_match m candidate job =
     (if j_skills job = [] then ((1, [], []), [])
      else
        let candidate_skills = remdups (map normalize_skill (c_skills candidate));
            job_skills = remdups (map normalize_skill (j_skills job));
            matched_skills = filter (\<lambda>s. s \<in> set job_skills) candidate_skills;
            missing_skills = filter (\<lambda>s. s \<notin> set candidate_skills) job_skills;
            exact_match_score = (if job_skills \<noteq> []
               then real (length matched_skills) / real (length job_skills) else 0)
        in if missing_skills \<noteq> [] \<and> c_skills candidate \<noteq> [] then
             let (semantic_score, semantic_matches) =
                   match_skills_semantic m (c_skills candidate) missing_skills;
                 final_score = exact_match_score * (7 / 10) + semantic_score * (3 / 10)
             in ((min 1 final_score, matched_skills @ semantic_matches,
                  filter (\<lambda>skill. skill \<notin> set semantic_matches) missing_skills),
                 [MatchSkillsSemantic (c_skills candidate) missing_skills])
           else ((min 1 exact_match_score, matched_skills, missing_skills), []))"

definition calculate_experience_match :: "CandidateSchema \<Rightarrow> JobSchema \<Rightarrow> real" where
  "calculate_experience_match candidate job =
     (case j_min_experience_years job of
        None \<Rightarrow> 1
      | Some required_exp \<Rightarrow>
          if required_exp = 0 then 1
          else
            let candidate_exp = c_experience_years candidate in
            if candidate_exp \<ge> required_exp then
              let excess = candidate_exp - required_exp;
                  bonus = min (2 / 10) (excess / (required_exp * 2))
              in min 1 (1 + bonus)
            else
              let ratio = candidate_exp / required_exp in max 0 ratio)"

definition edu_keywords :: "string list" where
  "edu_keywords = [''bachelor'', ''master'', ''phd'', ''doctorate'', ''degree'',
     ''licenciatura'', ''maestr'' @ [CHR 0xED] @ ''a'', ''doctorado'',
     ''t'' @ [CHR 0xED] @ ''tulo'']"

definition or_empty :: "string option \<Rightarrow> string" where
  \<comment> \<open>\<^verbatim>\<open>x or ''\<close>\<close>
  "or_empty x = (case x of None \<Rightarrow> [] | Some s \<Rightarrow> s)"

definition edu_text :: "EducationSchema \<Rightarrow> string" where
  "edu_text edu = ed_degree edu @ '' in '' @ or_empty (ed_field edu) @ '' from '' @ ed_institution edu"

definition calculate_education_match :: "model \<Rightarrow> CandidateSchema \<Rightarrow> JobSchema \<Rightarrow> real" where
  "calculate_education_match m candidate job =
     (if c_education candidate = [] \<or> j_requirements job = [] then 5 / 10
      else
        let job_reqs_text = lower (join '' '' (j_requirements job));
            has_edu_requirement = list_ex (\<lambda>keyword. contains keyword job_reqs_text) edu_keywords
        in if \<not> has_edu_requirement then 1
           else
             let education_texts = map edu_text (c_education candidate) in
             if education_texts = [] then 3 / 10
             else match_text_semantic m (join ''. '' education_texts) job_reqs_text)"

definition exp_text :: "ExperienceSchema \<Rightarrow> string" where
  "exp_text ex = ex_position ex @ '' at '' @ ex_company ex @ ''. '' @ or_empty (ex_description ex)"

definition calculate_semantic_match :: "model \<Rightarrow> CandidateSchema \<Rightarrow> JobSchema \<Rightarrow> real" where
  "calculate_semantic_match m candidate job =
     (let candidate_parts = (if or_empty (c_summary candidate) \<noteq> [] then [or_empty (c_summary candidate)] else [])
            @ (if c_experience candidate \<noteq> [] then map exp_text (c_experience candidate) else []);
          candidate_text = join '' '' candidate_parts;
          job_text = j_title job @ ''. '' @ j_description job @ ''. '' @ join '' '' (j_requirements job)
      in if candidate_text = [] \<or> job_text = [] then 5 / 10
         else match_text_semantic m candidate_text job_text)"

definition remote_keywords :: "string list" where
  "remote_keywords = [''remote'', ''remoto'', ''anywhere'', ''cualquier lugar'']"

definition calculate_location_match :: "model \<Rightarrow> CandidateSchema \<Rightarrow> JobSchema \<Rightarrow> real" where
  "calculate_location_match m candidate job =
     (if or_empty (j_location job) = [] then 1
      else if or_empty (c_location candidate) = [] then 5 / 10
      else
        let candidate_loc = strip (lower (or_empty (c_location candidate)));
            job_loc = strip (lower (or_empty (j_location job)))
        in if list_ex (\<lambda>keyword. contains keyword job_loc) remote_keywords then 1
           else if candidate_loc = job_loc then 1
           else if contains candidate_loc job_loc \<or> contains job_loc candidate_loc then 8 / 10
           else calculate_similarity m candidate_loc job_loc * (6 / 10))"

subsection \<open>Aggregation\<close>

definition calculate_overall_score :: "settings \<Rightarrow> MatchBreakdown \<Rightarrow> real" where
  "calculate_overall_score st b =
     (let score = skills_match b * SKILLS_WEIGHT st
                + experience_match b * EXPERIENCE_WEIGHT st
                + education_match b * EDUCATION_WEIGHT st
                + semantic_match b * SEMANTIC_WEIGHT st
      in case location_match b of
           Some l \<Rightarrow> (let location_boost = l * (5 / 100) in min 1 (score + location_boost))
         | None \<Rightarrow> score)"

definition py_int :: "real \<Rightarrow> int" where
  \<comment> \<open>\<^verbatim>\<open>int(x)\<close>: truncation towards zero\<close>
  "py_int x = (if 0 \<le> x then \<lfloor>x\<rfloor> else \<lceil>x\<rceil>)"

subsection \<open>Single and batch matching\<close>

definition match_single :: "settings \<Rightarrow> model \<Rightarrow> CandidateSchema \<Rightarrow> JobSchema \<Rightarrow> py_error + SingleMatchResponse" where
  "match_single st m candidate job =
     (let (skills_score, matched, missing) = fst (calculate_skills_match m candidate job);
          experience_score = calculate_experience_match candidate job;
          education_score = calculate_education_match m candidate job;
          semantic_score = calculate_semantic_match m candidate job;
          location_score = calculate_location_match m candidate job
      in case mk_MatchBreakdown skills_score experience_score education_score semantic_score
                (Some location_score) of
           Inl e \<Rightarrow> Inl e
         | Inr b \<Rightarrow>
             let overall_score = calculate_overall_score st b;
                 percentage = py_int (overall_score * 100);
                 quality = determine_match_quality st overall_score
             in mk_SingleMatchResponse (c_id candidate) (c_name candidate) (j_id job)
                  overall_score percentage b matched missing quality)"

fun collect :: "('a \<Rightarrow> py_error + 'b) \<Rightarrow> 'a list \<Rightarrow> py_error + 'b list" where
  \<comment> \<open>a \<^verbatim>\<open>for\<close> loop appending \<open>f x\<close> for each \<open>x\<close>; the first exception leaves the loop\<close>
  "collect f [] = Inr []"
| "collect f (x # xs) =
     (case f x of
        Inl e \<Rightarrow> Inl e
      | Inr y \<Rightarrow> (case collect f xs of Inl e \<Rightarrow> Inl e | Inr ys \<Rightarrow> Inr (y # ys)))"

definition sort_by_score_desc :: "SingleMatchResponse list \<Rightarrow> SingleMatchResponse list" where
  \<comment> \<open>\<^verbatim>\<open>matches.sort(key=lambda x: x.compatibility_score, reverse=True)\<close>: Python's sort is
      stable, also with \<^verbatim>\<open>reverse=True\<close>\<close>
  "sort_by_score_desc matches = sort_key (\<lambda>x. - compatibility_score x) matches"

fun count_skill :: "string \<Rightarrow> (string \<times> nat) list \<Rightarrow> (string \<times> nat) list" where
  \<comment> \<open>\<^verbatim>\<open>skill_counts[skill] = skill_counts.get(skill, 0) + 1\<close> on an insertion-ordered dict\<close>
  "count_skill skill [] = [(skill, 1)]"
| "count_skill skill ((k, n) # kvs) =
     (if k = skill then (k, n + 1) # kvs else (k, n) # count_skill skill kvs)"

definition match_batch ::
  "settings \<Rightarrow> model \<Rightarrow> CandidateSchema list \<Rightarrow> JobSchema
     \<Rightarrow> py_error + (RankedMatchResult list \<times> real \<times> string list)" where
  "match_batch st m candidates job =
     (case collect (\<lambda>candidate. match_single st m candidate job) candidates of
        Inl e \<Rightarrow> Inl e
      | Inr unsorted \<Rightarrow>
          let all_matched_skills = concat (map matched_skills unsorted);
              matches = sort_by_score_desc unsorted
          in case collect (\<lambda>(r, match). mk_RankedMatchResult r match) (List.enumerate 1 matches) of
               Inl e \<Rightarrow> Inl e
             | Inr ranked_results \<Rightarrow>
                 let average_score = (if matches \<noteq> []
                        then sum_list (map compatibility_score matches) / real (length matches)
                        else 0);
                     skill_counts = foldl (\<lambda>d skill. count_skill skill d) [] all_matched_skills;
                     top_skills = map fst (take 10 (sort_key (\<lambda>(skill, n). - int n) skill_counts))
                 in Inr (ranked_results, average_score, top_skills))"

definition engine_match_single ::
  "settings \<Rightarrow> model \<Rightarrow> CandidateSchema \<Rightarrow> JobSchema \<Rightarrow> py_error + SingleMatchResponse" where
  \<comment> \<open>a match in a running process: \<^verbatim>\<open>matching_engine.py\<close> imports \<^verbatim>\<open>config.py\<close>, whose
      module body runs first\<close>
  "engine_match_single st m candidate job =
     (case config_module st of Inl e \<Rightarrow> Inl e | Inr st' \<Rightarrow> match_single st' m candidate job)"

subsection \<open>Sample inputs\<close>

text \<open>
  A model that relates the skill \<open>c\<close> to the skill \<open>d\<close> with similarity 0.8 and nothing
  else, a candidate and a job. The job requires three skills, of which the candidate has
  two verbatim; it asks for five years, names no location and lists no requirements.
\<close>

definition ex_model :: model where
  "ex_model a b = (if a = ''c'' \<and> b = ''d'' then 8 / 10 else 0)"

definition ex_candidate :: CandidateSchema where
  "ex_candidate = \<lparr> c_id = ''c1'', c_name = ''Ana'', c_skills = [''a'', ''b'', ''d''],
     c_experience_years = 5, c_experience = [], c_education = [], c_summary = None,
     c_location = None \<rparr>"

definition ex_job :: JobSchema where
  "ex_job = \<lparr> j_id = ''j1'', j_title = ''Dev'', j_description = ''Build'',
     j_skills = [''a'', ''b'', ''c''], j_requirements = [],
     j_location = None, j_min_experience_years = Some 5 \<rparr>"


definition ex_batch :: "CandidateSchema list" where
  "ex_batch = [ex_candidate, ex_candidate\<lparr>c_id := ''c2'', c_experience_years := 2\<rparr>,
     ex_candidate\<lparr>c_id := ''c3''\<rparr>]"

section \<open>Properties\<close>

subsection \<open>Normalising a string twice\<close>

lemma is_upper_lower_char: "\<not> is_upper (lower_char c)"
  by (auto simp: lower_char_def is_upper_def Let_def)

lemma is_space_lower_char: "is_space (lower_char c) = is_space c"
  by (auto simp: lower_char_def is_upper_def is_space_def Let_def)

lemma lower_char_idem: "lower_char (lower_char c) = lower_char c"
  using is_upper_lower_char[of c] by (simp add: lower_char_def[of "lower_char c"])

lemma strip_idem: "strip (strip s) = strip s"
proof -
  let ?t = "dropWhile is_space s"
  let ?u = "dropWhile is_space (rev ?t)"
  have "dropWhile is_space (rev ?u) = rev ?u"
  proof (cases "?u = []")
    case True show ?thesis unfolding True by simp
  next
    case False
    then have ne: "rev ?t \<noteq> []" by (metis dropWhile.simps(1))
    have "last ?u = last (rev ?t)"
      by (metis False takeWhile_dropWhile_id last_appendR)
    also have "\<dots> = hd ?t" using ne by (simp add: last_rev)
    finally have "hd (rev ?u) = hd ?t" using False by (simp add: hd_rev)
    moreover have "\<not> is_space (hd ?t)" using ne by (simp add: hd_dropWhile)
    ultimately show ?thesis by (simp add: dropWhile_eq_self_iff)
  qed
  then show ?thesis by (simp add: strip_def)
qed

lemma strip_lower: "strip (lower s) = lower (strip s)"
  by (simp add: strip_def lower_def dropWhile_map rev_map comp_def is_space_lower_char)

lemma lower_idem: "lower (lower s) = lower s"
  by (simp add: lower_def lower_char_idem)

lemma normalize_idem: "normalize_skill (normalize_skill s) = normalize_skill s"
  by (simp add: normalize_skill_def strip_lower lower_idem strip_idem)


subsection \<open>The sample inputs, evaluated\<close>

lemma normalize_samples:
  "normalize_skill ''a'' = ''a''" "normalize_skill ''b'' = ''b''" "normalize_skill ''c'' = ''c''" "normalize_skill ''d'' = ''d''"
  by (simp_all add: normalize_skill_def lower_def lower_char_def is_upper_def strip_def is_space_def)

lemma skills_sample: "calculate_skills_match ex_model ex_candidate ex_job = ((53/75, [''a'', ''b'', ''c''], []), [MatchSkillsSemantic [''a'', ''b'', ''d''] [''c'']])"
  by (simp add: calculate_skills_match_def ex_candidate_def ex_job_def normalize_samples match_skills_semantic_def ex_model_def Let_def)

lemma exp_sample: "calculate_experience_match ex_candidate ex_job = 1"
  by (simp add: calculate_experience_match_def ex_candidate_def ex_job_def)

lemma edu_sample: "calculate_education_match ex_model ex_candidate ex_job = 1/2"
  by (simp add: calculate_education_match_def ex_candidate_def ex_job_def)

lemma sem_sample: "calculate_semantic_match ex_model ex_candidate ex_job = 1/2"
  by (simp add: calculate_semantic_match_def ex_candidate_def ex_job_def or_empty_def)

lemma loc_sample: "calculate_location_match ex_model ex_candidate ex_job = 1"
  by (simp add: calculate_location_match_def ex_candidate_def ex_job_def or_empty_def)

lemmas eval_defs = match_single_def calculate_skills_match_def calculate_experience_match_def
  calculate_education_match_def calculate_semantic_match_def calculate_location_match_def
  match_skills_semantic_def or_empty_def ex_candidate_def ex_job_def ex_model_def
  normalize_samples mk_MatchBreakdown_def in_unit_def calculate_overall_score_def
  default_settings_def mk_SingleMatchResponse_def py_int_def determine_match_quality_def Let_def

lemma single_sample:
  "match_single default_settings ex_model ex_candidate ex_job =
     Inr \<lparr> candidate_id = ''c1'', candidate_name = ''Ana'', job_id = ''j1'',
           compatibility_score = 2273 / 3000, match_percentage = 75,
           breakdown = \<lparr> skills_match = 53 / 75, experience_match = 1, education_match = 1 / 2,
             semantic_match = 1 / 2, location_match = Some 1 \<rparr>,
           matched_skills = [''a'', ''b'', ''c''], missing_skills = [],
           match_quality = ''good'' \<rparr>"
  by (simp add: match_single_def skills_sample exp_sample edu_sample sem_sample loc_sample
      mk_MatchBreakdown_def in_unit_def calculate_overall_score_def default_settings_def
      mk_SingleMatchResponse_def py_int_def determine_match_quality_def Let_def)
     (simp add: ex_candidate_def ex_job_def)


subsection \<open>Quality tier\<close>

text \<open>
  Claim C1. For every overall score, \<open>determine_match_quality\<close> returns \<open>excellent\<close> when
  the score reaches the excellent threshold of the settings, else \<open>good\<close> when it reaches
  the good threshold, else \<open>medium\<close> when it reaches the minimum threshold, else \<open>low\<close>.
\<close>

theorem determine_match_quality_tiers:
  "determine_match_quality st s =
     (if EXCELLENT_MATCH_THRESHOLD st \<le> s then ''excellent''
      else if GOOD_MATCH_THRESHOLD st \<le> s then ''good''
      else if MIN_MATCH_THRESHOLD st \<le> s then ''medium''
      else ''low'')"
  by (simp add: determine_match_quality_def)

theorem determine_match_quality_tiers_witness:
  "determine_match_quality default_settings (9 / 10) = ''excellent''
   \<and> determine_match_quality default_settings (7 / 10) = ''good''
   \<and> determine_match_quality default_settings (4 / 10) = ''medium''
   \<and> determine_match_quality default_settings (1 / 10) = ''low''"
  using determine_match_quality_tiers [of default_settings "9 / 10"]
        determine_match_quality_tiers [of default_settings "7 / 10"]
        determine_match_quality_tiers [of default_settings "4 / 10"]
        determine_match_quality_tiers [of default_settings "1 / 10"]
  by (simp add: default_settings_def)

subsection \<open>Education\<close>

text \<open>
  Claim C2. The claim is that a job whose requirements name an education keyword, matched
  against a candidate with an empty education list, scores 0.3. The first test of
  \<open>calculate_education_match\<close> returns 0.5 for every candidate with an empty education
  list, so the branch that returns 0.3 is never reached: here the requirement \<open>phd\<close> is
  an education keyword, the candidate lists no education, and the score is 0.5.
\<close>

theorem education_empty_list_returns_neutral:
  "c_education ex_candidate = []
   \<and> list_ex (\<lambda>keyword. contains keyword (lower (join '' '' (j_requirements (ex_job\<lparr>j_requirements := [''phd'']\<rparr>)))))
        edu_keywords
   \<and> calculate_education_match m ex_candidate (ex_job\<lparr>j_requirements := [''phd'']\<rparr>) = 5 / 10"
  by (simp add: calculate_education_match_def ex_candidate_def ex_job_def edu_keywords_def
      lower_def lower_char_def is_upper_def)

subsection \<open>Experience\<close>

text \<open>
  Claim C5. The claim is that a candidate who meets the required years scores exactly 1.
  The job schema bounds \<open>experience_years\<close> of a candidate from below by 0 but puts no
  bound on \<open>min_experience_years\<close> of a job. With a requirement of \<open>-1\<close> years and a
  candidate of ten years the bonus is \<open>11 / (-2)\<close> and \<open>calculate_experience_match\<close>
  returns \<open>-4.5\<close>: not 1, and not a score between 0 and 1 as its docstring says.
\<close>

theorem calculate_experience_match_negative_requirement:
  "j_min_experience_years (ex_job\<lparr>j_min_experience_years := Some (- 1)\<rparr>) = Some (- 1)
   \<and> c_experience_years (ex_candidate\<lparr>c_experience_years := 10\<rparr>) \<ge> - 1
   \<and> valid_candidate (ex_candidate\<lparr>c_experience_years := 10\<rparr>)
   \<and> calculate_experience_match (ex_candidate\<lparr>c_experience_years := 10\<rparr>)
        (ex_job\<lparr>j_min_experience_years := Some (- 1)\<rparr>) = - 9 / 2
   \<and> calculate_experience_match (ex_candidate\<lparr>c_experience_years := 10\<rparr>)
        (ex_job\<lparr>j_min_experience_years := Some (- 1)\<rparr>) \<noteq> 1
   \<and> \<not> in_unit (calculate_experience_match (ex_candidate\<lparr>c_experience_years := 10\<rparr>)
        (ex_job\<lparr>j_min_experience_years := Some (- 1)\<rparr>))"
  by (simp add: calculate_experience_match_def ex_candidate_def ex_job_def valid_candidate_def
      in_unit_def)

text \<open>
  For a requirement that is absent, zero or positive the three cases are as stated: the
  score is 1 without a requirement, exactly 1 when the candidate meets a positive
  requirement, and \<open>max 0 (c / r)\<close> when the candidate falls short of it.
\<close>

lemma calculate_experience_match_positive:
  "(j_min_experience_years j = None \<or> j_min_experience_years j = Some 0
      \<longrightarrow> calculate_experience_match c j = 1)
   \<and> (j_min_experience_years j = Some r \<and> r > 0 \<and> c_experience_years c \<ge> r
      \<longrightarrow> calculate_experience_match c j
            = min 1 (1 + min (2 / 10) ((c_experience_years c - r) / (2 * r)))
        \<and> calculate_experience_match c j = 1)
   \<and> (j_min_experience_years j = Some r \<and> r > 0 \<and> c_experience_years c < r
      \<longrightarrow> calculate_experience_match c j = max 0 (c_experience_years c / r))"
  by (auto simp: calculate_experience_match_def Let_def mult.commute min_def)

subsection \<open>Aggregation\<close>

text \<open>
  Claim C6. The aggregate score is the sum of the four sub-scores, each times its weight.
  When the breakdown has a location sub-score, 0.05 times that sub-score is added and the
  total is capped at 1; when it has none, the weighted sum is returned as it is.
\<close>

theorem calculate_overall_score_formula:
  "calculate_overall_score st b =
     (let weighted = skills_match b * SKILLS_WEIGHT st + experience_match b * EXPERIENCE_WEIGHT st
                   + education_match b * EDUCATION_WEIGHT st + semantic_match b * SEMANTIC_WEIGHT st
      in if location_match b = None then weighted
         else min 1 (weighted + the (location_match b) * (5 / 100)))"
  by (simp add: calculate_overall_score_def Let_def split: option.split)

theorem calculate_overall_score_formula_witness:
  "calculate_overall_score default_settings
     \<lparr> skills_match = 1, experience_match = 1, education_match = 1, semantic_match = 1,
       location_match = Some 1 \<rparr> = 1
   \<and> calculate_overall_score default_settings
     \<lparr> skills_match = 1, experience_match = 1, education_match = 1 / 2, semantic_match = 1 / 2,
       location_match = None \<rparr> = 33 / 40"
  using calculate_overall_score_formula [of default_settings
      "\<lparr> skills_match = 1, experience_match = 1, education_match = 1, semantic_match = 1,
         location_match = Some 1 \<rparr>"]
    calculate_overall_score_formula [of default_settings
      "\<lparr> skills_match = 1, experience_match = 1, education_match = 1 / 2, semantic_match = 1 / 2,
         location_match = None \<rparr>"]
  by (simp add: default_settings_def)

subsection \<open>Single match\<close>



text \<open>
  Claim C10. Every response that \<open>match_single\<close> returns carries a location sub-score, the
  value of \<open>calculate_location_match\<close>; its compatibility score is the weighted sum plus
  0.05 times that sub-score, capped at 1.
\<close>

theorem match_single_location_always_applied:
  assumes "match_single st m c j = Inr r"
  shows "location_match (breakdown r) = Some (calculate_location_match m c j)
       \<and> compatibility_score r
           = min 1 (skills_match (breakdown r) * SKILLS_WEIGHT st
                  + experience_match (breakdown r) * EXPERIENCE_WEIGHT st
                  + education_match (breakdown r) * EDUCATION_WEIGHT st
                  + semantic_match (breakdown r) * SEMANTIC_WEIGHT st
                  + calculate_location_match m c j * (5 / 100))
       \<and> compatibility_score r \<le> 1"
  using assms
  by (auto simp: match_single_def mk_MatchBreakdown_def mk_SingleMatchResponse_def Let_def
      calculate_overall_score_def split: prod.splits if_splits sum.splits)

theorem match_single_location_always_applied_witness:
  "match_single default_settings ex_model ex_candidate ex_job \<noteq> Inl ValidationError
   \<and> location_match (breakdown (projr (match_single default_settings ex_model ex_candidate ex_job)))
       = Some (calculate_location_match ex_model ex_candidate ex_job)
   \<and> compatibility_score (projr (match_single default_settings ex_model ex_candidate ex_job)) \<le> 1"
  using match_single_location_always_applied [of default_settings ex_model ex_candidate ex_job,
      OF single_sample]
  by (simp add: single_sample)

subsection \<open>Startup\<close>

text \<open>
  Claim C9. \<open>validate_weights\<close> holds exactly when the four weights sum to within 0.01 of
  1 (strictly). Settings that fail the test make the configuration module raise
  \<open>ValueError\<close> when it is loaded, so no match runs; settings that pass are the ones the
  engine matches with.
\<close>

theorem validate_weights_startup:
  "(validate_weights st \<longleftrightarrow>
      \<bar>SKILLS_WEIGHT st + EXPERIENCE_WEIGHT st + SEMANTIC_WEIGHT st + EDUCATION_WEIGHT st - 1\<bar> < 1 / 100)
   \<and> (validate_weights st \<longrightarrow> config_module st = Inr st
        \<and> engine_match_single st m c j = match_single st m c j)
   \<and> (\<not> validate_weights st \<longrightarrow> config_module st = Inl ValueError
        \<and> engine_match_single st m c j = Inl ValueError)"
  by (simp add: validate_weights_def config_module_def engine_match_single_def Let_def)

theorem validate_weights_startup_witness:
  "validate_weights default_settings
   \<and> engine_match_single default_settings ex_model ex_candidate ex_job
       = match_single default_settings ex_model ex_candidate ex_job
   \<and> \<not> validate_weights (default_settings\<lparr>SKILLS_WEIGHT := 1 / 2\<rparr>)
   \<and> engine_match_single (default_settings\<lparr>SKILLS_WEIGHT := 1 / 2\<rparr>) ex_model ex_candidate ex_job
       = Inl ValueError"
  using validate_weights_startup [of default_settings ex_model ex_candidate ex_job]
    validate_weights_startup [of "default_settings\<lparr>SKILLS_WEIGHT := 1 / 2\<rparr>" ex_model ex_candidate ex_job]
  by (simp add: default_settings_def)

subsection \<open>Skills\<close>

lemma row_max_Max: "xs \<noteq> [] \<Longrightarrow> row_max xs = Max (set xs)"
  by (induction xs rule: row_max.induct) simp_all

lemma accepted_scores:
  "map snd (filter (\<lambda>(k, s). P s) (map (\<lambda>k. (k, f k)) ks)) = filter P (map f ks)"
  by (induction ks) simp_all

lemma accepted_keys:
  "map fst (filter (\<lambda>(k, s). P s) (map (\<lambda>k. (k, f k)) ks)) = filter (\<lambda>k. P (f k)) ks"
  by (induction ks) simp_all

lemma match_skills_semantic_matches:
  "snd (match_skills_semantic m cs js)
     = (if cs = [] \<or> js = [] then []
        else filter (\<lambda>k. 7 / 10 \<le> row_max (map (m k) (map normalize_skill cs))) (map normalize_skill js))"
  unfolding match_skills_semantic_def Let_def accepted_keys by simp

lemma match_skills_semantic_score:
  "fst (match_skills_semantic m cs js)
     = (if cs = [] \<or> js = [] then 0
        else let scores = filter (\<lambda>x. 7 / 10 \<le> x)
                   (map (\<lambda>k. row_max (map (m k) (map normalize_skill cs))) (map normalize_skill js))
             in if scores \<noteq> [] then sum_list scores / real (length scores) else 0)"
  unfolding match_skills_semantic_def Let_def accepted_scores by simp

lemma normalize_fixed: "set xs \<subseteq> normalize_skill ` A \<Longrightarrow> map normalize_skill xs = xs"
  by (rule map_idI) (auto simp: normalize_idem)

text \<open>
  Claim C4. A job without required skills scores 1 with empty matched and missing lists.
  Otherwise let \<open>exact\<close> be the number of required skills the candidate has verbatim,
  divided by the number of required skills. When some required skill is missing and the
  candidate has a skill, the score is \<open>min 1 (0.7 exact + 0.3 semantic)\<close>, where
  \<open>semantic\<close> is the mean of those best similarities of the missing skills (the largest
  similarity to any candidate skill) that reach 0.7, and 0 when none does. When no
  required skill is missing the score is \<open>exact\<close> and the provider is not called.
\<close>

theorem calculate_skills_match_score:
  fixes m :: model and c :: CandidateSchema and j :: JobSchema
  defines "cand \<equiv> normalize_skill ` set (c_skills c)"
  defines "req \<equiv> normalize_skill ` set (j_skills j)"
  defines "exact \<equiv> real (card (cand \<inter> req)) / real (card req)"
  defines "missing \<equiv> filter (\<lambda>s. s \<notin> cand) (remdups (map normalize_skill (j_skills j)))"
  defines "accepted \<equiv> filter (\<lambda>x. 7 / 10 \<le> x) (map (\<lambda>s. Max (m s ` cand)) missing)"
  defines "semantic \<equiv> (if accepted = [] then 0 else sum_list accepted / real (length accepted))"
  shows "(j_skills j = [] \<longrightarrow> calculate_skills_match m c j = ((1, [], []), []))
       \<and> (j_skills j \<noteq> [] \<and> \<not> req \<subseteq> cand \<and> c_skills c \<noteq> []
            \<longrightarrow> fst (fst (calculate_skills_match m c j))
                  = min 1 (exact * (7 / 10) + semantic * (3 / 10)))
       \<and> (j_skills j \<noteq> [] \<and> req \<subseteq> cand
            \<longrightarrow> fst (fst (calculate_skills_match m c j)) = exact
                \<and> snd (calculate_skills_match m c j) = [])"
proof -
  define cl where "cl = remdups (map normalize_skill (c_skills c))"
  define rl where "rl = remdups (map normalize_skill (j_skills j))"
  define matched0 where "matched0 = filter (\<lambda>s. s \<in> set rl) cl"
  have cl_set: "set cl = cand" and rl_set: "set rl = req"
    by (simp_all add: cl_def rl_def cand_def req_def)
  have missing_eq: "missing = filter (\<lambda>s. s \<notin> set cl) rl"
    by (simp add: missing_def rl_def cl_set)
  have "distinct rl" by (simp add: rl_def)
  then have "length rl = card (set rl)" by (simp add: distinct_card)
  then have len_rl: "length rl = card req" by (simp only: rl_set)
  have "distinct matched0" by (simp add: matched0_def cl_def)
  then have "length matched0 = card (set matched0)" by (simp add: distinct_card)
  also have "set matched0 = cand \<inter> req" using cl_set rl_set by (auto simp: matched0_def)
  finally have len_m: "length matched0 = card (cand \<inter> req)" .
  have exact_eq: "real (length matched0) / real (length rl) = exact"
    by (simp add: len_m len_rl exact_def)
  have "card (cand \<inter> req) \<le> card req" by (rule card_mono) (simp_all add: req_def)
  then have exact_le: "exact \<le> 1" by (auto simp: exact_def divide_le_eq_1)
  have miss_nonempty: "missing \<noteq> [] \<longleftrightarrow> \<not> req \<subseteq> cand"
    using cl_set rl_set by (auto simp: missing_eq filter_empty_conv)
  have c1: "j_skills j = [] \<longrightarrow> calculate_skills_match m c j = ((1, [], []), [])"
    by (simp add: calculate_skills_match_def)
  have c2: "fst (fst (calculate_skills_match m c j)) = min 1 (exact * (7 / 10) + semantic * (3 / 10))"
    if h: "j_skills j \<noteq> []" "\<not> req \<subseteq> cand" "c_skills c \<noteq> []"
  proof -
    have ne: "missing \<noteq> []" using h miss_nonempty by simp
    have "set missing \<subseteq> normalize_skill ` set (j_skills j)"
      by (auto simp: missing_def)
    then have fixed: "map normalize_skill missing = missing" by (rule normalize_fixed)
    have rows: "row_max (map (m k) (map normalize_skill (c_skills c))) = Max (m k ` cand)" for k
      using h(3) by (simp add: row_max_Max cand_def image_image)
    have scores: "filter (\<lambda>x. 7 / 10 \<le> x)
        (map (\<lambda>k. row_max (map (m k) (map normalize_skill (c_skills c))))
          (map normalize_skill missing)) = accepted"
      by (simp only: fixed rows accepted_def)
    have sem: "fst (match_skills_semantic m (c_skills c) missing) = semantic"
      unfolding match_skills_semantic_score Let_def scores semantic_def
      using h(3) ne by simp
    have rl_ne: "rl \<noteq> []" using h(1) by (simp add: rl_def)
    show ?thesis
      using h(1,3) ne rl_ne sem exact_eq
      by (auto simp: calculate_skills_match_def Let_def cl_def[symmetric] rl_def[symmetric]
          matched0_def[symmetric] missing_eq[symmetric] split: prod.splits)
  qed
  have c3: "fst (fst (calculate_skills_match m c j)) = exact
            \<and> snd (calculate_skills_match m c j) = []"
    if h: "j_skills j \<noteq> []" "req \<subseteq> cand"
  proof -
    have e: "missing = []" using h miss_nonempty by simp
    have rl_ne: "rl \<noteq> []" using h(1) by (simp add: rl_def)
    show ?thesis
      using h(1) e rl_ne exact_eq exact_le
      by (simp add: calculate_skills_match_def Let_def cl_def[symmetric] rl_def[symmetric]
          matched0_def[symmetric] missing_eq[symmetric])
  qed
  from c1 c2 c3 show ?thesis by blast
qed

theorem calculate_skills_match_score_witness:
  "calculate_skills_match ex_model ex_candidate (ex_job\<lparr>j_skills := []\<rparr>) = ((1, [], []), [])
   \<and> j_skills ex_job \<noteq> [] \<and> c_skills ex_candidate \<noteq> []
   \<and> \<not> normalize_skill ` set (j_skills ex_job) \<subseteq> normalize_skill ` set (c_skills ex_candidate)
   \<and> fst (fst (calculate_skills_match ex_model ex_candidate ex_job)) = 53 / 75
   \<and> normalize_skill ` set (j_skills (ex_job\<lparr>j_skills := [''a'', ''b'']\<rparr>))
        \<subseteq> normalize_skill ` set (c_skills ex_candidate)
   \<and> fst (fst (calculate_skills_match ex_model ex_candidate (ex_job\<lparr>j_skills := [''a'', ''b'']\<rparr>))) = 1
   \<and> snd (calculate_skills_match ex_model ex_candidate (ex_job\<lparr>j_skills := [''a'', ''b'']\<rparr>)) = []"
  using calculate_skills_match_score [where m = ex_model and c = ex_candidate and j = "ex_job\<lparr>j_skills := []\<rparr>"]
    calculate_skills_match_score [where m = ex_model and c = ex_candidate and j = ex_job]
    calculate_skills_match_score [where m = ex_model and c = ex_candidate
      and j = "ex_job\<lparr>j_skills := [''a'', ''b'']\<rparr>"]
  by (simp add: eval_defs)

text \<open>
  Claim C8. The matched and the missing skills that \<open>calculate_skills_match\<close> returns
  have no element in common, and each of them is a normalised required skill of the job.
\<close>

theorem skills_lists_disjoint_subset:
  assumes "calculate_skills_match m c j = ((score, matched, missing), calls)"
  shows "set matched \<inter> set missing = {}
       \<and> set matched \<subseteq> normalize_skill ` set (j_skills j)
       \<and> set missing \<subseteq> normalize_skill ` set (j_skills j)"
proof (cases "j_skills j = []")
  case True
  with assms show ?thesis by (simp add: calculate_skills_match_def)
next
  case False
  define cand where "cand = remdups (map normalize_skill (c_skills c))"
  define req where "req = remdups (map normalize_skill (j_skills j))"
  define matched0 where "matched0 = filter (\<lambda>s. s \<in> set req) cand"
  define missing0 where "missing0 = filter (\<lambda>s. s \<notin> set cand) req"
  define sm where "sm = snd (match_skills_semantic m (c_skills c) missing0)"
  have req_set: "set req = normalize_skill ` set (j_skills j)" by (simp add: req_def)
  have miss_sub: "set missing0 \<subseteq> normalize_skill ` set (j_skills j)"
    using req_set by (auto simp: missing0_def)
  have "map normalize_skill missing0 = missing0" using miss_sub by (rule normalize_fixed)
  then have sm_sub: "set sm \<subseteq> set missing0"
    by (auto simp: sm_def match_skills_semantic_matches)
  have disj0: "set matched0 \<inter> set missing0 = {}" by (auto simp: matched0_def missing0_def)
  show ?thesis
  proof (cases "missing0 \<noteq> [] \<and> c_skills c \<noteq> []")
    case True
    with assms False have "matched = matched0 @ sm"
      and "missing = filter (\<lambda>skill. skill \<notin> set sm) missing0"
      by (auto simp: calculate_skills_match_def Let_def cand_def req_def matched0_def
          missing0_def sm_def split: prod.splits)
    then show ?thesis using sm_sub disj0 miss_sub req_set by (auto simp: matched0_def)
  next
    case False
    with assms \<open>j_skills j \<noteq> []\<close> have "matched = matched0" and "missing = missing0"
      by (auto simp: calculate_skills_match_def Let_def cand_def req_def matched0_def
          missing0_def split: prod.splits)
    then show ?thesis using disj0 miss_sub req_set by (auto simp: matched0_def)
  qed
qed

theorem skills_lists_disjoint_subset_witness:
  "calculate_skills_match ex_model ex_candidate ex_job
     = ((53 / 75, [''a'', ''b'', ''c''], []), [MatchSkillsSemantic [''a'', ''b'', ''d''] [''c'']])
   \<and> set [''a'', ''b'', ''c''] \<inter> set ([] :: string list) = {}
   \<and> set [''a'', ''b'', ''c''] \<subseteq> normalize_skill ` set (j_skills ex_job)"
  using skills_lists_disjoint_subset [OF skills_sample] skills_sample
  by simp

subsection \<open>Batch ranking\<close>

lemma collect_Inr:
  "collect f xs = Inr ys \<Longrightarrow> list_all2 (\<lambda>x y. f x = Inr y) xs ys"
  by (induction xs arbitrary: ys) (auto split: sum.splits)

lemma collect_total:
  "(\<forall>x\<in>set xs. \<exists>y. f x = Inr y) \<Longrightarrow> \<exists>ys. collect f xs = Inr ys"
  by (induction xs) (auto split: sum.splits)

lemma insort_key_snd:
  "map snd (insort_key (\<lambda>p. f (snd p)) p ps) = insort_key f (snd p) (map snd ps)"
  by (induction ps) simp_all

lemma sort_key_snd:
  "map snd (sort_key (\<lambda>p. f (snd p)) ps) = sort_key f (map snd ps)"
  by (induction ps) (simp_all add: insort_key_snd)

lemma insort_key_tie_break:
  fixes f :: "'a \<Rightarrow> real" and x :: "nat \<times> 'a"
  assumes "sorted_wrt (\<lambda>p q. f (snd p) < f (snd q) \<or> (f (snd p) = f (snd q) \<and> fst p < fst q)) ys"
    and "\<forall>y\<in>set ys. fst x < fst y"
  shows "sorted_wrt (\<lambda>p q. f (snd p) < f (snd q) \<or> (f (snd p) = f (snd q) \<and> fst p < fst q))
           (insort_key (\<lambda>p. f (snd p)) x ys)"
  using assms
proof (induction ys)
  case Nil
  then show ?case by simp
next
  case (Cons y ys)
  show ?case
  proof (cases "f (snd x) \<le> f (snd y)")
    case True
    with Cons.prems show ?thesis by (auto simp: less_le)
  next
    case False
    with Cons show ?thesis by (auto simp: set_insort_key)
  qed
qed

lemma sort_key_tie_break:
  fixes f :: "'a \<Rightarrow> real" and ps :: "(nat \<times> 'a) list"
  assumes "sorted_wrt (<) (map fst ps)"
  shows "sorted_wrt (\<lambda>p q. f (snd p) < f (snd q) \<or> (f (snd p) = f (snd q) \<and> fst p < fst q))
           (sort_key (\<lambda>p. f (snd p)) ps)"
  using assms
proof (induction ps)
  case Nil
  then show ?case by simp
next
  case (Cons p ps)
  then have "sorted_wrt (\<lambda>p q. f (snd p) < f (snd q) \<or> (f (snd p) = f (snd q) \<and> fst p < fst q))
           (sort_key (\<lambda>p. f (snd p)) ps)" by simp
  moreover have "\<forall>y\<in>set (sort_key (\<lambda>p. f (snd p)) ps). fst p < fst y"
    using Cons.prems by auto
  ultimately show ?case by (simp add: insort_key_tie_break)
qed

lemma match_single_ids:
  "match_single st m c j = Inr x \<Longrightarrow> candidate_id x = c_id c"
  by (auto simp: match_single_def mk_SingleMatchResponse_def Let_def
      split: prod.splits sum.splits if_splits)

lemma mk_RankedMatchResult_fields:
  "mk_RankedMatchResult r x = Inr y \<Longrightarrow>
     rank y = r \<and> rk_candidate_id y = candidate_id x
     \<and> rk_compatibility_score y = compatibility_score x
     \<and> rk_matched_skills y = matched_skills x \<and> rk_missing_skills y = missing_skills x
     \<and> rk_breakdown y = breakdown x"
  by (auto simp: mk_RankedMatchResult_def split: if_splits)

lemma match_batch_Inr:
  assumes "match_batch st m cs j = Inr (rs, avg, tops)"
  obtains ms where "collect (\<lambda>c. match_single st m c j) cs = Inr ms"
    and "collect (\<lambda>(r, x). mk_RankedMatchResult r x) (List.enumerate 1 (sort_by_score_desc ms)) = Inr rs"
  using assms by (auto simp: match_batch_def Let_def split: sum.splits)

lemma batch_sample:
  "match_batch default_settings ex_model ex_batch ex_job =
     Inr ([\<lparr>rk_candidate_id = ''c1'', rk_candidate_name = ''Ana'',
             rk_compatibility_score = 2273 / 3000, rk_match_percentage = 75, rank = 1,
             rk_breakdown = \<lparr>skills_match = 53 / 75, experience_match = 1,
               education_match = 1 / 2, semantic_match = 1 / 2, location_match = Some 1\<rparr>,
             rk_matched_skills = [''a'', ''b'', ''c''], rk_missing_skills = [],
             rk_match_quality = ''good''\<rparr>,
           \<lparr>rk_candidate_id = ''c3'', rk_candidate_name = ''Ana'',
             rk_compatibility_score = 2273 / 3000, rk_match_percentage = 75, rank = 2,
             rk_breakdown = \<lparr>skills_match = 53 / 75, experience_match = 1,
               education_match = 1 / 2, semantic_match = 1 / 2, location_match = Some 1\<rparr>,
             rk_matched_skills = [''a'', ''b'', ''c''], rk_missing_skills = [],
             rk_match_quality = ''good''\<rparr>,
           \<lparr>rk_candidate_id = ''c2'', rk_candidate_name = ''Ana'',
             rk_compatibility_score = 1823 / 3000, rk_match_percentage = 60, rank = 3,
             rk_breakdown = \<lparr>skills_match = 53 / 75, experience_match = 2 / 5,
               education_match = 1 / 2, semantic_match = 1 / 2, location_match = Some 1\<rparr>,
             rk_matched_skills = [''a'', ''b'', ''c''], rk_missing_skills = [],
             rk_match_quality = ''good''\<rparr>],
          2123 / 3000, [''a'', ''b'', ''c''])"
  by (simp add: match_batch_def ex_batch_def eval_defs sort_by_score_desc_def
     mk_RankedMatchResult_def enumerate_eq_zip upt_rec)

text \<open>
  Claim C3. When \<open>match_batch\<close> returns, it returns one result per candidate; the ranks
  are \<open>1, \<dots>, N\<close> in that order; the scores do not increase along the list; and there is a
  permutation \<open>order\<close> of the input positions, \<open>order ! p\<close> being the position of the
  candidate ranked \<open>p + 1\<close>, such that of two candidates with equal scores the one earlier
  in the input has the smaller rank.
\<close>

theorem match_batch_ranking:
  assumes "match_batch st m cs j = Inr (rs, avg, tops)"
  shows "\<exists>ms order.
      list_all2 (\<lambda>c x. match_single st m c j = Inr x) cs ms
    \<and> length rs = length cs
    \<and> map rank rs = [1..<Suc (length cs)]
    \<and> sorted_wrt (\<ge>) (map rk_compatibility_score rs)
    \<and> length order = length cs \<and> distinct order \<and> set order = {0..<length cs}
    \<and> (\<forall>p<length cs. rk_candidate_id (rs ! p) = c_id (cs ! (order ! p))
          \<and> rk_compatibility_score (rs ! p) = compatibility_score (ms ! (order ! p)))
    \<and> (\<forall>p<length cs. \<forall>q<length cs.
          order ! p < order ! q
          \<and> compatibility_score (ms ! (order ! p)) = compatibility_score (ms ! (order ! q))
          \<longrightarrow> rank (rs ! p) < rank (rs ! q))"
proof -
  from assms obtain ms where
    ms: "collect (\<lambda>c. match_single st m c j) cs = Inr ms" and
    rs: "collect (\<lambda>(r, x). mk_RankedMatchResult r x) (List.enumerate 1 (sort_by_score_desc ms)) = Inr rs"
    by (rule match_batch_Inr)
  define N where "N = length cs"
  define key where "key = (\<lambda>x :: SingleMatchResponse. - compatibility_score x)"
  define zs where "zs = zip [0..<N] ms"
  define ds where "ds = sort_key (\<lambda>p. key (snd p)) zs"
  define order where "order = map fst ds"
  define matches where "matches = sort_by_score_desc ms"
  have all_ms: "list_all2 (\<lambda>c x. match_single st m c j = Inr x) cs ms"
    using ms by (rule collect_Inr)
  then have len_ms: "length ms = N" by (simp add: N_def list_all2_lengthD)
  have fst_zs: "map fst zs = [0..<N]" and snd_zs: "map snd zs = ms"
    by (simp_all add: zs_def len_ms)
  have "map snd ds = sort_key key (map snd zs)"
    unfolding ds_def by (rule sort_key_snd)
  then have matches_ds: "matches = map snd ds"
    by (simp add: matches_def sort_by_score_desc_def snd_zs key_def)
  have len_ds: "length ds = N" by (simp add: ds_def zs_def len_ms)
  have len_matches: "length matches = N" by (simp add: matches_ds len_ds)
  have in_zs: "snd p = ms ! fst p \<and> fst p < N" if "p \<in> set zs" for p
    using that by (auto simp: zs_def in_set_zip)
  have set_ds: "set ds = set zs" by (simp add: ds_def)
  have ds_mem: "ds ! p \<in> set zs" if "p < N" for p
    using that len_ds set_ds nth_mem [of p ds] by simp
  have matches_nth: "matches ! p = ms ! (order ! p)" if "p < N" for p
    using that in_zs [OF ds_mem [OF that]] len_ds
    by (simp add: matches_ds order_def)
  have order_lt: "order ! p < N" if "p < N" for p
    using that in_zs [OF ds_mem [OF that]] len_ds by (simp add: order_def)
  have "distinct (map fst zs)" by (simp add: fst_zs)
  then have "distinct zs" and "inj_on fst (set zs)" by (simp_all add: distinct_map)
  then have "distinct ds" and "inj_on fst (set ds)" by (simp_all add: ds_def)
  then have dist_order: "distinct order" by (simp add: order_def distinct_map)
  have "set order = set (map fst zs)" by (simp add: order_def set_ds)
  then have set_order: "set order = {0..<N}" by (simp add: fst_zs)
  have len_order: "length order = N" by (simp add: order_def len_ds)
  \<comment> \<open>the ranked results, position by position\<close>
  have all_rs: "list_all2 (\<lambda>x y. (case x of (r, x) \<Rightarrow> mk_RankedMatchResult r x) = Inr y)
      (List.enumerate 1 matches) rs"
    using collect_Inr [OF rs] by (simp only: matches_def)
  then have len_rs: "length rs = N" by (simp add: list_all2_lengthD[symmetric] len_matches)
  have rs_nth: "mk_RankedMatchResult (Suc p) (matches ! p) = Inr (rs ! p)" if "p < N" for p
    using list_all2_nthD [OF all_rs, of p] that len_matches by (simp add: nth_enumerate_eq)
  have rank_nth: "rank (rs ! p) = Suc p" if "p < N" for p
    using mk_RankedMatchResult_fields [OF rs_nth [OF that]] by simp
  have score_nth: "rk_compatibility_score (rs ! p) = compatibility_score (ms ! (order ! p))"
    if "p < N" for p
    using mk_RankedMatchResult_fields [OF rs_nth [OF that]] matches_nth [OF that] by simp
  have id_nth: "rk_candidate_id (rs ! p) = c_id (cs ! (order ! p))" if "p < N" for p
  proof -
    have "match_single st m (cs ! (order ! p)) j = Inr (ms ! (order ! p))"
      using list_all2_nthD [OF all_ms, of "order ! p"] order_lt [OF that] by (simp add: N_def)
    then have "candidate_id (ms ! (order ! p)) = c_id (cs ! (order ! p))"
      by (rule match_single_ids)
    then show ?thesis
      using mk_RankedMatchResult_fields [OF rs_nth [OF that]] matches_nth [OF that] by simp
  qed
  have ranks: "map rank rs = [1..<Suc N]"
    by (rule nth_equalityI) (simp_all add: len_rs rank_nth del: upt_Suc)
  \<comment> \<open>descending scores\<close>
  have "sorted (map key matches)"
    by (simp add: matches_def sort_by_score_desc_def key_def)
  then have "sorted_wrt (\<lambda>x y. key x \<le> key y) matches" by (simp add: sorted_wrt_map)
  then have desc_matches: "sorted_wrt (\<lambda>x y. compatibility_score x \<ge> compatibility_score y) matches"
    by (simp add: key_def)
  have score_matches: "rk_compatibility_score (rs ! p) = compatibility_score (matches ! p)"
    if "p < N" for p
    using mk_RankedMatchResult_fields [OF rs_nth [OF that]] by simp
  have "map rk_compatibility_score rs = map compatibility_score matches"
    by (rule nth_equalityI) (simp_all add: len_rs len_matches score_matches)
  then have desc: "sorted_wrt (\<ge>) (map rk_compatibility_score rs)"
    using desc_matches by (simp add: sorted_wrt_map)
  \<comment> \<open>ties keep the input order\<close>
  have "sorted_wrt (<) (map fst zs)" by (simp add: fst_zs sorted_wrt_upt)
  then have lex: "sorted_wrt (\<lambda>p q. key (snd p) < key (snd q)
        \<or> (key (snd p) = key (snd q) \<and> fst p < fst q)) ds"
    unfolding ds_def by (rule sort_key_tie_break)
  have tie: "rank (rs ! p) < rank (rs ! q)"
    if "p < N" "q < N" "order ! p < order ! q"
      "compatibility_score (ms ! (order ! p)) = compatibility_score (ms ! (order ! q))" for p q
  proof (rule ccontr)
    assume "\<not> rank (rs ! p) < rank (rs ! q)"
    then have "q \<le> p" using that(1,2) by (simp add: rank_nth)
    moreover have "q \<noteq> p" using that(3) by auto
    ultimately have "q < p" by simp
    then have "key (snd (ds ! q)) < key (snd (ds ! p))
        \<or> (key (snd (ds ! q)) = key (snd (ds ! p)) \<and> fst (ds ! q) < fst (ds ! p))"
      using lex that(1) len_ds by (simp add: sorted_wrt_iff_nth_less)
    moreover have "snd (ds ! q) = ms ! (order ! q)" "snd (ds ! p) = ms ! (order ! p)"
      using matches_nth that(1,2) len_ds by (simp_all add: matches_ds)
    moreover have "fst (ds ! q) = order ! q" "fst (ds ! p) = order ! p"
      using that(1,2) len_ds by (simp_all add: order_def)
    ultimately show False using that(3,4) by (simp add: key_def)
  qed
  show ?thesis
    apply (rule exI [of _ ms], rule exI [of _ order])
    using all_ms len_rs ranks desc len_order dist_order set_order score_nth id_nth tie
    by (simp add: N_def)
qed

theorem match_batch_ranking_witness:
  "\<exists>rs avg tops. match_batch default_settings ex_model ex_batch ex_job = Inr (rs, avg, tops)
     \<and> map rank rs = [1, 2, 3]
     \<and> map rk_candidate_id rs = [''c1'', ''c3'', ''c2'']
     \<and> sorted_wrt (\<ge>) (map rk_compatibility_score rs)"
proof -
  define rs where "rs = fst (projr (match_batch default_settings ex_model ex_batch ex_job))"
  define rest where "rest = snd (projr (match_batch default_settings ex_model ex_batch ex_job))"
  have b: "match_batch default_settings ex_model ex_batch ex_job = Inr (rs, fst rest, snd rest)"
    by (simp add: rs_def rest_def batch_sample)
  have ids: "map rk_candidate_id rs = [''c1'', ''c3'', ''c2'']"
    by (simp add: rs_def batch_sample)
  from match_batch_ranking [OF b]
  have "map rank rs = [1..<Suc (length ex_batch)]"
    and desc: "sorted_wrt (\<ge>) (map rk_compatibility_score rs)"
    by blast+
  then have ranks: "map rank rs = [1, 2, 3]" by (simp add: ex_batch_def upt_rec)
  show ?thesis
    by (rule exI [of _ rs], rule exI [of _ "fst rest"], rule exI [of _ "snd rest"])
      (intro conjI b ranks ids desc)
qed

subsection \<open>When matching returns\<close>

text \<open>
  The theorems about \<open>match_single\<close> and \<open>match_batch\<close> speak of the responses they
  return. They do return one for every candidate with non-negative years, every job whose
  required years are absent or non-negative, and non-negative weights. A negative
  requirement can drive the experience sub-score below 0, which the breakdown rejects.
\<close>

lemma calculate_similarity_in_unit: "in_unit (calculate_similarity m a b)"
  by (simp add: calculate_similarity_def in_unit_def)

lemma match_text_semantic_in_unit: "in_unit (match_text_semantic m a b)"
  using calculate_similarity_in_unit [of m a b]
  by (simp add: match_text_semantic_def in_unit_def)

lemma education_in_unit: "in_unit (calculate_education_match m c j)"
  using match_text_semantic_in_unit
  by (simp add: calculate_education_match_def Let_def in_unit_def)

lemma semantic_in_unit: "in_unit (calculate_semantic_match m c j)"
  using match_text_semantic_in_unit
  by (simp add: calculate_semantic_match_def Let_def in_unit_def)

lemma scaled_in_unit: "in_unit x \<Longrightarrow> in_unit (x * (6 / 10))"
  by (simp add: in_unit_def)

lemma location_in_unit: "in_unit (calculate_location_match m c j)"
proof -
  have "in_unit 1" "in_unit (5 / 10)" "in_unit (8 / 10)" by (simp_all add: in_unit_def)
  then show ?thesis
    using scaled_in_unit [OF calculate_similarity_in_unit]
    by (simp add: calculate_location_match_def Let_def)
qed

lemma semantic_score_nonneg: "0 \<le> fst (match_skills_semantic m cs js)"
proof (cases "cs = [] \<or> js = []")
  case True
  then show ?thesis by (auto simp: match_skills_semantic_def)
next
  case False
  define scores where "scores = filter (\<lambda>x. 7 / 10 \<le> x)
    (map (\<lambda>k. row_max (map (m k) (map normalize_skill cs))) (map normalize_skill js))"
  have "\<forall>x\<in>set scores. 0 \<le> x" by (auto simp: scores_def)
  then have "0 \<le> sum_list scores" by (simp add: sum_list_nonneg)
  then have "0 \<le> (if scores \<noteq> [] then sum_list scores / real (length scores) else 0)"
    by simp
  moreover have "fst (match_skills_semantic m cs js)
      = (if scores \<noteq> [] then sum_list scores / real (length scores) else 0)"
    unfolding match_skills_semantic_score Let_def scores_def using False by simp
  ultimately show ?thesis by simp
qed

lemma skills_in_unit: "in_unit (fst (fst (calculate_skills_match m c j)))"
  using semantic_score_nonneg [of m "c_skills c"]
  by (auto simp: calculate_skills_match_def Let_def in_unit_def case_prod_unfold
      intro!: add_nonneg_nonneg)

lemma experience_in_unit:
  assumes "valid_candidate c" and "\<forall>r. j_min_experience_years j = Some r \<longrightarrow> 0 \<le> r"
  shows "in_unit (calculate_experience_match c j)"
proof (cases "j_min_experience_years j")
  case None
  then show ?thesis by (simp add: calculate_experience_match_def in_unit_def)
next
  case (Some r)
  with assms have r: "0 \<le> r" and c: "0 \<le> c_experience_years c"
    by (simp_all add: valid_candidate_def)
  show ?thesis
  proof (cases "r = 0")
    case True
    with Some show ?thesis by (simp add: calculate_experience_match_def in_unit_def)
  next
    case False
    with r have pos: "0 < r" by simp
    show ?thesis
    proof (cases "c_experience_years c \<ge> r")
      case True
      then have "0 \<le> (c_experience_years c - r) / (r * 2)" using pos by simp
      then have "0 \<le> min (2 / 10) ((c_experience_years c - r) / (r * 2))" by simp
      then have "min 1 (1 + min (2 / 10) ((c_experience_years c - r) / (r * 2))) = 1"
        by simp
      with Some False True show ?thesis
        by (simp add: calculate_experience_match_def Let_def in_unit_def)
    next
      case lt: False
      then have "c_experience_years c / r \<le> 1" using pos by simp
      moreover have "0 \<le> c_experience_years c / r" using pos c by simp
      ultimately show ?thesis using Some False lt
        by (simp add: calculate_experience_match_def Let_def in_unit_def)
    qed
  qed
qed

lemma py_int_percentage: "in_unit x \<Longrightarrow> 0 \<le> py_int (x * 100) \<and> py_int (x * 100) \<le> 100"
proof -
  assume "in_unit x"
  then have "0 \<le> x * 100" "x * 100 \<le> 100" by (simp_all add: in_unit_def)
  then show ?thesis by (simp add: py_int_def floor_le_iff)
qed

lemma overall_in_unit:
  assumes "in_unit (skills_match b)" "in_unit (experience_match b)"
    "in_unit (education_match b)" "in_unit (semantic_match b)"
    "location_match b = Some l" "in_unit l"
    and "0 \<le> SKILLS_WEIGHT st" "0 \<le> EXPERIENCE_WEIGHT st"
      "0 \<le> EDUCATION_WEIGHT st" "0 \<le> SEMANTIC_WEIGHT st"
  shows "in_unit (calculate_overall_score st b)"
proof -
  have "0 \<le> skills_match b * SKILLS_WEIGHT st" "0 \<le> experience_match b * EXPERIENCE_WEIGHT st"
    "0 \<le> education_match b * EDUCATION_WEIGHT st" "0 \<le> semantic_match b * SEMANTIC_WEIGHT st"
    "0 \<le> l * (5 / 100)"
    using assms by (simp_all add: in_unit_def)
  then have "0 \<le> skills_match b * SKILLS_WEIGHT st + experience_match b * EXPERIENCE_WEIGHT st
      + education_match b * EDUCATION_WEIGHT st + semantic_match b * SEMANTIC_WEIGHT st
      + l * (5 / 100)"
    by linarith
  then show ?thesis
    using assms(5) by (simp add: calculate_overall_score_def in_unit_def)
qed

lemma match_single_total:
  assumes "valid_candidate c" and "\<forall>r. j_min_experience_years j = Some r \<longrightarrow> 0 \<le> r"
    and "0 \<le> SKILLS_WEIGHT st" "0 \<le> EXPERIENCE_WEIGHT st"
      "0 \<le> EDUCATION_WEIGHT st" "0 \<le> SEMANTIC_WEIGHT st"
  shows "\<exists>x. match_single st m c j = Inr x"
proof -
  define sk where "sk = fst (fst (calculate_skills_match m c j))"
  define e where "e = calculate_experience_match c j"
  define ed where "ed = calculate_education_match m c j"
  define se where "se = calculate_semantic_match m c j"
  define lo where "lo = calculate_location_match m c j"
  define b where "b = \<lparr> skills_match = sk, experience_match = e, education_match = ed,
    semantic_match = se, location_match = Some lo \<rparr>"
  have u: "in_unit sk" "in_unit e" "in_unit ed" "in_unit se" "in_unit lo"
    unfolding sk_def e_def ed_def se_def lo_def
    by (rule skills_in_unit experience_in_unit [OF assms(1,2)] education_in_unit
        semantic_in_unit location_in_unit)+
  then have mk: "mk_MatchBreakdown sk e ed se (Some lo) = Inr b"
    by (simp add: mk_MatchBreakdown_def b_def)
  have ov: "in_unit (calculate_overall_score st b)"
    by (rule overall_in_unit [where l = lo]) (simp_all add: b_def u assms)
  note pct = py_int_percentage [OF ov]
  show ?thesis
    unfolding match_single_def Let_def case_prod_unfold
      sk_def [symmetric] e_def [symmetric] ed_def [symmetric] se_def [symmetric]
      lo_def [symmetric] mk
    using ov pct by (simp add: mk_SingleMatchResponse_def)
qed

lemma match_single_validated:
  "match_single st m c j = Inr x \<Longrightarrow>
     in_unit (compatibility_score x) \<and> 0 \<le> match_percentage x \<and> match_percentage x \<le> 100"
  by (auto simp: match_single_def mk_SingleMatchResponse_def Let_def
      split: prod.splits sum.splits if_splits)

lemma match_batch_total:
  assumes "\<forall>c\<in>set cs. valid_candidate c"
    and "\<forall>r. j_min_experience_years j = Some r \<longrightarrow> 0 \<le> r"
    and "0 \<le> SKILLS_WEIGHT st" "0 \<le> EXPERIENCE_WEIGHT st"
      "0 \<le> EDUCATION_WEIGHT st" "0 \<le> SEMANTIC_WEIGHT st"
  shows "\<exists>r. match_batch st m cs j = Inr r"
proof -
  have "\<forall>c\<in>set cs. \<exists>x. match_single st m c j = Inr x"
    using assms match_single_total by blast
  then obtain ms where ms: "collect (\<lambda>c. match_single st m c j) cs = Inr ms"
    using collect_total [of cs "\<lambda>c. match_single st m c j"] by blast
  have valid: "in_unit (compatibility_score x) \<and> 0 \<le> match_percentage x \<and> match_percentage x \<le> 100"
    if "x \<in> set ms" for x
  proof -
    from that obtain i where i: "i < length ms" "ms ! i = x" by (auto simp: in_set_conv_nth)
    have "match_single st m (cs ! i) j = Inr (ms ! i)"
      using list_all2_nthD2 [OF collect_Inr [OF ms] i(1)] .
    then show ?thesis unfolding i(2) by (rule match_single_validated)
  qed
  have "\<forall>p\<in>set (List.enumerate 1 (sort_by_score_desc ms)).
          \<exists>y. (case p of (r, x) \<Rightarrow> mk_RankedMatchResult r x) = Inr y"
  proof
    fix p assume p: "p \<in> set (List.enumerate 1 (sort_by_score_desc ms))"
    obtain r x where rx: "p = (r, x)" by (cases p)
    from p rx have "x \<in> set (sort_by_score_desc ms)"
      by (auto simp: enumerate_eq_zip dest: set_zip_rightD)
    then have "x \<in> set ms" by (simp add: sort_by_score_desc_def)
    moreover from p rx have "1 \<le> r" by (simp add: in_set_enumerate_eq)
    ultimately show "\<exists>y. (case p of (r, x) \<Rightarrow> mk_RankedMatchResult r x) = Inr y"
      using valid [of x] by (simp add: rx mk_RankedMatchResult_def)
  qed
  then obtain rs where
    "collect (\<lambda>(r, x). mk_RankedMatchResult r x) (List.enumerate 1 (sort_by_score_desc ms)) = Inr rs"
    using collect_total [of "List.enumerate 1 (sort_by_score_desc ms)"
        "\<lambda>(r, x). mk_RankedMatchResult r x"] by blast
  with ms show ?thesis by (simp add: match_batch_def Let_def)
qed

lemma negative_requirement_raises:
  "match_single default_settings ex_model (ex_candidate\<lparr>c_experience_years := 10\<rparr>)
     (ex_job\<lparr>j_min_experience_years := Some (- 1)\<rparr>) = Inl ValidationError"
  by (simp add: eval_defs)

end
